theory Spec2Isabelle
  imports Complex_Main
begin

section \<open>JavaScript values used by the voice pipeline\<close>

text \<open>
  A JavaScript string is a sequence of UTF-16 code units; a code unit is modelled as a
  natural number. \<open>js\<close> embeds an ASCII literal of the source.
\<close>

type_synonym jsstring = "nat list"

definition js :: "string \<Rightarrow> jsstring" where
  "js s = map of_char s"

text \<open>
  \<open>String.prototype.trim\<close> removes the code units that ECMAScript calls WhiteSpace
  (TAB, VT, FF, ZWNBSP and the space separators) or LineTerminator (LF, CR, LS, PS) from
  both ends.
\<close>

definition isWhiteSpace :: "nat \<Rightarrow> bool" where
  "isWhiteSpace c \<longleftrightarrow>
     c = 9 \<or> c = 10 \<or> c = 11 \<or> c = 12 \<or> c = 13 \<or> c = 32 \<or> c = 160 \<or> c = 5760
     \<or> (8192 \<le> c \<and> c \<le> 8202) \<or> c = 8232 \<or> c = 8233 \<or> c = 8239 \<or> c = 8287
     \<or> c = 12288 \<or> c = 65279"

definition js_trim :: "jsstring \<Rightarrow> jsstring" where
  "js_trim s = rev (dropWhile isWhiteSpace (rev (dropWhile isWhiteSpace s)))"

text \<open>The spec's "empty or whitespace-only".\<close>

definition blank :: "jsstring \<Rightarrow> bool" where
  "blank s \<longleftrightarrow> list_all isWhiteSpace s"

text \<open>
  Decimal rendering of a non-negative integer, as a template literal prints
  \<open>Date.now()\<close> and a counter.
\<close>

fun dec :: "nat \<Rightarrow> jsstring" where
  "dec n = (if n < 10 then [48 + n] else dec (n div 10) @ [48 + n mod 10])"

declare dec.simps [simp del]

text \<open>A \<open>Blob\<close>: only its size and MIME type are read by the code.\<close>

record Blob =
  blob_size :: nat
  blob_type :: jsstring

text \<open>\<open>new Blob(chunks, { type })\<close> concatenates the chunks.\<close>

definition new_Blob :: "Blob list \<Rightarrow> jsstring \<Rightarrow> Blob" where
  "new_Blob chunks ty = \<lparr>blob_size = sum_list (map blob_size chunks), blob_type = ty\<rparr>"

text \<open>
  The outcome of \<open>await fetch(...)\<close> followed by reading the body: the promise rejects
  with an error message, or a response arrives with its \<open>ok\<close> flag and parsed body.
\<close>

datatype 'a fetched = Threw jsstring | Res bool 'a

datatype Language = En | Hi

record Source =
  src_source :: "jsstring option"
  src_title :: "jsstring option"
  src_similarity :: "real option"

record SlideProps =
  sessionId :: jsstring
  slideId :: jsstring
  slideTitle :: jsstring
  slideContext :: jsstring

record RagBody =
  rag_session_id :: jsstring
  rag_slide_id :: jsstring
  rag_slide_title :: jsstring
  rag_slide_context :: jsstring
  rag_question :: jsstring
  rag_language :: Language
  rag_custom_tone :: "jsstring option"

record WebBody =
  web_query :: jsstring
  web_slide_context :: jsstring
  web_language :: Language
  web_custom_tone :: "jsstring option"

record TtsBody =
  tts_text :: jsstring
  tts_language :: Language
  tts_cloned_voice_id :: "jsstring option"

text \<open>What the code sends to its collaborators, in the order it sends it.\<close>

datatype Effect =
    GetUserMedia
  | SttRequest Blob Language
  | RagRequest RagBody
  | WebSearchRequest WebBody
  | TtsRequest TtsBody
  | OnTranscript jsstring
  | OnAnswer jsstring

text \<open>Media objects of the browser: streams, recorders and audio elements.\<close>

datatype RecordingState = Inactive | Recording

record MediaRecorder =
  rec_state :: RecordingState
  rec_stream :: nat
  rec_mime :: jsstring
  rec_stopping :: bool

datatype AudioStatus = Playing | Paused | Ended | Failed

datatype AudioOwner = ByProcessAudio | ByAskText | ByQueryAI

record Audio =
  au_status :: AudioStatus
  au_owner :: AudioOwner

definition playing :: "Audio list \<Rightarrow> nat list" where
  "playing as = filter (\<lambda>i. au_status (as ! i) = Playing) [0..<length as]"

section \<open>useVoiceRAG: the manual voice hook\<close>

datatype VoiceState = Idle | Listening | Thinking | Speaking | Error

record VoiceRAG =
  state :: VoiceState
  transcript :: jsstring
  answer :: jsstring
  sources :: "Source list"
  error :: jsstring
  mediaRecorderRef :: "nat option"
  audioChunksRef :: "Blob list"
  audioRef :: "nat option"
  streams :: "bool list"
  recorders :: "MediaRecorder list"
  audios :: "Audio list"
  effects :: "Effect list"

definition useVoiceRAG :: VoiceRAG where
  "useVoiceRAG = \<lparr>state = Idle, transcript = [], answer = [], sources = [], error = [],
     mediaRecorderRef = None, audioChunksRef = [], audioRef = None,
     streams = [], recorders = [], audios = [], effects = []\<rparr>"

text \<open>The \<open>catch (e)\<close> block shared by \<open>processAudio\<close> and \<open>askText\<close>.\<close>

definition catch_error :: "jsstring \<Rightarrow> VoiceRAG \<Rightarrow> VoiceRAG" where
  "catch_error m s = s\<lparr>error := m, state := Error\<rparr>"

text \<open>
  \<open>startListening\<close> up to its first \<open>await\<close>: the three resets, then the request for
  the microphone.
\<close>

definition startListening :: "VoiceRAG \<Rightarrow> VoiceRAG" where
  "startListening s =
     s\<lparr>error := [], answer := [], transcript := [], effects := effects s @ [GetUserMedia]\<rparr>"

text \<open>
  The rest of \<open>startListening\<close>, once \<open>getUserMedia\<close> has settled. \<open>Granted b\<close>: access
  was given, and \<open>b\<close> says whether \<open>new MediaRecorder(stream, { mimeType: "audio/webm" })\<close>
  accepts the MIME type (it throws otherwise, inside the same \<open>try\<close>).
\<close>

datatype MediaResult = Granted bool | Denied

definition startListening_resume :: "MediaResult \<Rightarrow> VoiceRAG \<Rightarrow> VoiceRAG" where
  "startListening_resume r s =
     (case r of
        Denied \<Rightarrow> s\<lparr>error := js ''Microphone access denied'', state := Error\<rparr>
      | Granted supported \<Rightarrow>
          (let s1 = s\<lparr>streams := streams s @ [True]\<rparr> in
           if \<not> supported
           then s1\<lparr>error := js ''Microphone access denied'', state := Error\<rparr>
           else s1\<lparr>mediaRecorderRef := Some (length (recorders s)),
                   audioChunksRef := [],
                   recorders := recorders s @
                     [\<lparr>rec_state = Recording, rec_stream = length (streams s),
                       rec_mime = js ''audio/webm'', rec_stopping = False\<rparr>],
                   state := Listening\<rparr>))"

definition stopListening :: "VoiceRAG \<Rightarrow> VoiceRAG" where
  "stopListening s =
     (case mediaRecorderRef s of
        None \<Rightarrow> s
      | Some r \<Rightarrow>
          if r < length (recorders s) \<and> rec_state (recorders s ! r) = Recording
          then s\<lparr>recorders := (recorders s)
                    [r := (recorders s ! r)\<lparr>rec_state := Inactive, rec_stopping := True\<rparr>],
                 state := Thinking\<rparr>
          else s)"

text \<open>
  \<open>processAudio\<close> up to its first \<open>await\<close>: the blob goes to the speech-to-text
  endpoint whatever its size.
\<close>

definition processAudio :: "Language \<Rightarrow> Blob \<Rightarrow> VoiceRAG \<Rightarrow> VoiceRAG" where
  "processAudio lang blob s =
     s\<lparr>state := Thinking, effects := effects s @ [SttRequest blob lang]\<rparr>"

definition rag_body :: "SlideProps \<Rightarrow> Language \<Rightarrow> jsstring \<Rightarrow> RagBody" where
  "rag_body p lang q =
     \<lparr>rag_session_id = sessionId p, rag_slide_id = slideId p, rag_slide_title = slideTitle p,
      rag_slide_context = slideContext p, rag_question = q, rag_language = lang,
      rag_custom_tone = None\<rparr>"

text \<open>\<open>processAudio\<close> after the speech-to-text response.\<close>

definition processAudio_stt ::
    "SlideProps \<Rightarrow> Language \<Rightarrow> jsstring fetched \<Rightarrow> VoiceRAG \<Rightarrow> VoiceRAG" where
  "processAudio_stt p lang r s =
     (case r of
        Threw m \<Rightarrow> catch_error m s
      | Res ok text \<Rightarrow>
          if \<not> ok then catch_error (js ''Transcription failed'') s
          else
            (let s1 = s\<lparr>transcript := text, effects := effects s @ [OnTranscript text]\<rparr> in
             if js_trim text = [] then s1\<lparr>state := Idle\<rparr>
             else s1\<lparr>effects := effects s1 @ [RagRequest (rag_body p lang text)]\<rparr>))"

text \<open>
  After the retrieval response: the answer is stored, then the state becomes Speaking and
  the synthesis request is sent; \<open>voice\<close> is what \<open>localStorage\<close> holds at that moment.
\<close>

definition speak_request :: "Language \<Rightarrow> jsstring option \<Rightarrow> jsstring \<Rightarrow> Effect" where
  "speak_request lang voice txt =
     TtsRequest \<lparr>tts_text = txt, tts_language = lang, tts_cloned_voice_id = voice\<rparr>"

definition answer_received ::
    "Language \<Rightarrow> jsstring option \<Rightarrow> jsstring \<Rightarrow> Source list \<Rightarrow> VoiceRAG \<Rightarrow> VoiceRAG" where
  "answer_received lang voice answerText srcs s =
     s\<lparr>answer := answerText, sources := srcs, state := Speaking,
       effects := effects s @ [OnAnswer answerText, speak_request lang voice answerText]\<rparr>"

definition processAudio_rag ::
    "Language \<Rightarrow> jsstring option \<Rightarrow> (jsstring \<times> Source list) fetched \<Rightarrow> VoiceRAG \<Rightarrow> VoiceRAG"
  where
  "processAudio_rag lang voice r s =
     (case r of
        Threw m \<Rightarrow> catch_error m s
      | Res ok body \<Rightarrow>
          if \<not> ok then catch_error (js ''RAG query failed'') s
          else answer_received lang voice (fst body) (snd body) s)"

text \<open>
  \<open>new Audio(url)\<close>, stored in \<open>audioRef\<close>, then \<open>audio.play()\<close>. Nothing is done to
  the element \<open>audioRef\<close> held before.
\<close>

definition play_new :: "AudioOwner \<Rightarrow> VoiceRAG \<Rightarrow> VoiceRAG" where
  "play_new owner s =
     s\<lparr>audioRef := Some (length (audios s)),
       audios := audios s @ [\<lparr>au_status = Playing, au_owner = owner\<rparr>]\<rparr>"

definition processAudio_tts :: "Blob fetched \<Rightarrow> VoiceRAG \<Rightarrow> VoiceRAG" where
  "processAudio_tts r s =
     (case r of
        Threw m \<Rightarrow> catch_error m s
      | Res ok audioBlob \<Rightarrow>
          if \<not> ok then catch_error (js ''TTS failed'') s else play_new ByProcessAudio s)"

text \<open>
  The three ways the playback of element \<open>a\<close> settles. For an element made by
  \<open>processAudio\<close>, \<open>onended\<close> resolves the awaited promise (state Idle), \<open>onerror\<close>
  rejects it with "Audio playback failed", and a rejected \<open>play()\<close> rejects it with
  its own reason; both rejections land in the \<open>catch\<close> block. An element made by
  \<open>askText\<close> has \<open>onended\<close> set and \<open>play()\<close> awaited, and no \<open>onerror\<close>.
\<close>

definition set_status :: "nat \<Rightarrow> AudioStatus \<Rightarrow> Audio list \<Rightarrow> Audio list" where
  "set_status a st as = as[a := (as ! a)\<lparr>au_status := st\<rparr>]"

definition audio_live :: "nat \<Rightarrow> VoiceRAG \<Rightarrow> bool" where
  "audio_live a s \<longleftrightarrow> a < length (audios s) \<and> au_status (audios s ! a) = Playing"

definition audio_onended :: "nat \<Rightarrow> VoiceRAG \<Rightarrow> VoiceRAG" where
  "audio_onended a s =
     (if \<not> audio_live a s then s
      else s\<lparr>audios := set_status a Ended (audios s), state := Idle\<rparr>)"

definition audio_onerror :: "nat \<Rightarrow> VoiceRAG \<Rightarrow> VoiceRAG" where
  "audio_onerror a s =
     (if \<not> audio_live a s then s
      else (let s1 = s\<lparr>audios := set_status a Failed (audios s)\<rparr> in
            case au_owner (audios s ! a) of
              ByProcessAudio \<Rightarrow> catch_error (js ''Audio playback failed'') s1
            | _ \<Rightarrow> s1))"

definition audio_play_rejected :: "nat \<Rightarrow> jsstring \<Rightarrow> VoiceRAG \<Rightarrow> VoiceRAG" where
  "audio_play_rejected a m s =
     (if \<not> audio_live a s then s
      else catch_error m (s\<lparr>audios := set_status a Failed (audios s)\<rparr>))"

text \<open>
  The recorder's \<open>dataavailable\<close> and \<open>stop\<close> events, which the browser fires once after
  \<open>recorder.stop()\<close>: the data is kept when it is not empty, the tracks of the stream
  are stopped, and the blob made of the chunks goes to \<open>processAudio\<close>.
\<close>

definition recorder_onstop :: "Language \<Rightarrow> nat \<Rightarrow> Blob \<Rightarrow> VoiceRAG \<Rightarrow> VoiceRAG" where
  "recorder_onstop lang r data s =
     (if \<not> (r < length (recorders s) \<and> rec_stopping (recorders s ! r)) then s
      else
        (let chunks = (if blob_size data > 0 then audioChunksRef s @ [data]
                       else audioChunksRef s);
             s1 = s\<lparr>audioChunksRef := chunks,
                    recorders := (recorders s)[r := (recorders s ! r)\<lparr>rec_stopping := False\<rparr>],
                    streams := (streams s)[rec_stream (recorders s ! r) := False]\<rparr>
         in processAudio lang (new_Blob chunks (js ''audio/webm'')) s1))"


definition askText_rag ::
    "Language \<Rightarrow> jsstring option \<Rightarrow> (jsstring \<times> Source list) fetched \<Rightarrow> VoiceRAG \<Rightarrow> VoiceRAG"
  where
  "askText_rag lang voice r s =
     (case r of
        Threw m \<Rightarrow> catch_error m s
      | Res ok body \<Rightarrow> answer_received lang voice (fst body) (snd body) s)"

definition askText_tts :: "Blob fetched \<Rightarrow> VoiceRAG \<Rightarrow> VoiceRAG" where
  "askText_tts r s =
     (case r of
        Threw m \<Rightarrow> catch_error m s
      | Res ok audioBlob \<Rightarrow> play_new ByAskText s)"

definition stopSpeaking :: "VoiceRAG \<Rightarrow> VoiceRAG" where
  "stopSpeaking s =
     (case audioRef s of
        None \<Rightarrow> s\<lparr>state := Idle\<rparr>
      | Some a \<Rightarrow>
          s\<lparr>audios := (if audio_live a s then set_status a Paused (audios s) else audios s),
            state := Idle\<rparr>)"

section \<open>VoicePanel: the controls in front of the hook\<close>




section \<open>useAmbientListener: continuous capture\<close>

record TranscriptEntry =
  entry_id :: jsstring
  entry_text :: jsstring
  entry_timestamp :: nat

record AmbientListener =
  isListening :: bool
  entries :: "TranscriptEntry list"
  streamRef :: "nat option"
  recorderRef :: "nat option"
  chunksRef :: "Blob list"
  intervalRef :: "nat option"
  idCounter :: nat
  mic_streams :: "bool list"
  mic_recorders :: "MediaRecorder list"
  timers :: "bool list"
  stt_effects :: "Effect list"

definition useAmbientListener :: AmbientListener where
  "useAmbientListener = \<lparr>isListening = False, entries = [], streamRef = None,
     recorderRef = None, chunksRef = [], intervalRef = None, idCounter = 0,
     mic_streams = [], mic_recorders = [], timers = [], stt_effects = []\<rparr>"

text \<open>
  \<open>transcribeChunk\<close> up to its \<open>await fetch\<close>: a blob below 1000 bytes returns before
  any request is built.
\<close>

definition transcribeChunk :: "Language \<Rightarrow> Blob \<Rightarrow> AmbientListener \<Rightarrow> AmbientListener" where
  "transcribeChunk lang blob a =
     (if blob_size blob < 1000 then a
      else a\<lparr>stt_effects := stt_effects a @ [SttRequest blob lang]\<rparr>)"

text \<open>
  The id \<open>`t-${Date.now()}-${idCounter.current++}`\<close>. The clock and the counter are
  JavaScript numbers that hold non-negative integers; they are natural numbers here, which
  is what such a number is as long as it stays below \<open>2^53\<close>.
\<close>

definition entry_id_of :: "nat \<Rightarrow> nat \<Rightarrow> jsstring" where
  "entry_id_of now n = js ''t-'' @ dec now @ js ''-'' @ dec n"

text \<open>
  \<open>transcribeChunk\<close> after the response. The body's \<open>transcript\<close> may be missing
  (\<open>data.transcript?.trim()\<close>), hence the option. \<open>now\<close> and \<open>now'\<close> are the two readings
  of \<open>Date.now()\<close>. The second component is the entry handed to \<open>opts.onTranscript\<close>,
  when one is made.
\<close>

definition transcribeChunk_stt ::
    "jsstring option fetched \<Rightarrow> nat \<Rightarrow> nat \<Rightarrow> AmbientListener
      \<Rightarrow> AmbientListener \<times> TranscriptEntry option" where
  "transcribeChunk_stt r now now' a =
     (case r of
        Threw m \<Rightarrow> (a, None)
      | Res ok tr \<Rightarrow>
          if \<not> ok then (a, None)
          else
            (case tr of
               None \<Rightarrow> (a, None)
             | Some t \<Rightarrow>
                 (let text = js_trim t in
                  if text = [] then (a, None)
                  else
                    (let entry = \<lparr>entry_id = entry_id_of now (idCounter a),
                                   entry_text = text, entry_timestamp = now'\<rparr>
                     in (a\<lparr>idCounter := idCounter a + 1, entries := entries a @ [entry]\<rparr>,
                         Some entry)))))"

text \<open>
  \<open>startRecorder\<close> for the stream \<open>sid\<close> of the enclosing \<open>startListening\<close> call;
  \<open>mime\<close> is the MIME type that \<open>MediaRecorder.isTypeSupported\<close> selects.
\<close>

definition pick_mime :: "bool \<Rightarrow> bool \<Rightarrow> jsstring" where
  "pick_mime opus webm =
     (if opus then js ''audio/webm;codecs=opus'' else if webm then js ''audio/webm'' else [])"

definition startRecorder :: "nat \<Rightarrow> jsstring \<Rightarrow> AmbientListener \<Rightarrow> AmbientListener" where
  "startRecorder sid mime a =
     a\<lparr>recorderRef := Some (length (mic_recorders a)),
       chunksRef := [],
       mic_recorders := mic_recorders a @
         [\<lparr>rec_state = Recording, rec_stream = sid, rec_mime = mime, rec_stopping = False\<rparr>]\<rparr>"

text \<open>\<open>recorder.stop()\<close>: inactive at once, its two events still to come.\<close>

definition stop_recorder :: "nat \<Rightarrow> MediaRecorder list \<Rightarrow> MediaRecorder list" where
  "stop_recorder r rs = rs[r := (rs ! r)\<lparr>rec_state := Inactive, rec_stopping := True\<rparr>]"

definition recording :: "AmbientListener \<Rightarrow> nat \<Rightarrow> bool" where
  "recording a r \<longleftrightarrow> r < length (mic_recorders a) \<and> rec_state (mic_recorders a ! r) = Recording"

definition harvestAndRestart :: "AmbientListener \<Rightarrow> AmbientListener" where
  "harvestAndRestart a =
     (case recorderRef a of
        None \<Rightarrow> a
      | Some r \<Rightarrow>
          if \<not> recording a r then a
          else a\<lparr>mic_recorders := stop_recorder r (mic_recorders a)\<rparr>)"

text \<open>The interval callback of timer \<open>t\<close>: it runs only while the timer is set.\<close>

definition timer_tick :: "nat \<Rightarrow> AmbientListener \<Rightarrow> AmbientListener" where
  "timer_tick t a = (if t < length (timers a) \<and> timers a ! t then harvestAndRestart a else a)"

definition startListening_ambient :: "AmbientListener \<Rightarrow> AmbientListener" where
  "startListening_ambient a = a\<lparr>stt_effects := stt_effects a @ [GetUserMedia]\<rparr>"

text \<open>
  After \<open>getUserMedia\<close>: \<open>Some mime\<close> when access is granted (with the MIME type the
  first \<open>startRecorder\<close> selects), \<open>None\<close> when it is refused.
\<close>

definition startListening_ambient_resume ::
    "jsstring option \<Rightarrow> AmbientListener \<Rightarrow> AmbientListener" where
  "startListening_ambient_resume g a =
     (case g of
        None \<Rightarrow> a\<lparr>isListening := False\<rparr>
      | Some mime \<Rightarrow>
          (let sid = length (mic_streams a);
               a1 = a\<lparr>streamRef := Some sid, mic_streams := mic_streams a @ [True]\<rparr>;
               a2 = startRecorder sid mime a1
           in a2\<lparr>isListening := True, intervalRef := Some (length (timers a2)),
                  timers := timers a2 @ [True]\<rparr>))"

text \<open>
  The \<open>dataavailable\<close> and \<open>stop\<close> events of recorder \<open>r\<close>, fired by the browser after
  \<open>recorder.stop()\<close>, whoever called it. \<open>onstop\<close> builds the blob, empties the chunks,
  calls \<open>transcribeChunk\<close>, and opens the next recorder when \<open>streamRef\<close> still holds an
  active stream.
\<close>

definition stream_active :: "AmbientListener \<Rightarrow> bool" where
  "stream_active a =
     (case streamRef a of
        None \<Rightarrow> False
      | Some sid \<Rightarrow> sid < length (mic_streams a) \<and> mic_streams a ! sid)"

definition segment_blob :: "AmbientListener \<Rightarrow> nat \<Rightarrow> Blob \<Rightarrow> Blob" where
  "segment_blob a r data =
     new_Blob (if blob_size data > 0 then chunksRef a @ [data] else chunksRef a)
       (if rec_mime (mic_recorders a ! r) = [] then js ''audio/webm''
        else rec_mime (mic_recorders a ! r))"

definition recorder_onstop_ambient ::
    "Language \<Rightarrow> nat \<Rightarrow> Blob \<Rightarrow> jsstring \<Rightarrow> AmbientListener \<Rightarrow> AmbientListener" where
  "recorder_onstop_ambient lang r data mime a =
     (if \<not> (r < length (mic_recorders a) \<and> rec_stopping (mic_recorders a ! r)) then a
      else
        (let a1 = a\<lparr>chunksRef := [],
                    mic_recorders := (mic_recorders a)
                      [r := (mic_recorders a ! r)\<lparr>rec_stopping := False\<rparr>]\<rparr>;
             a2 = transcribeChunk lang (segment_blob a r data) a1
         in if stream_active a2 then startRecorder (rec_stream (mic_recorders a ! r)) mime a2
            else a2))"

text \<open>
  \<open>stopListening\<close> of the listener. A timer handle of the browser is a positive number,
  so \<open>if (intervalRef.current)\<close> tests whether a handle is held. The recorder is stopped
  before the tracks are; its two events come after this function has returned, when
  \<open>streamRef\<close> is already \<open>null\<close>.
\<close>

definition stopListening_ambient :: "AmbientListener \<Rightarrow> AmbientListener" where
  "stopListening_ambient a =
     (let a1 = (case intervalRef a of
                  None \<Rightarrow> a
                | Some t \<Rightarrow> a\<lparr>timers := (timers a)[t := False], intervalRef := None\<rparr>);
          a2 = (case recorderRef a1 of
                  None \<Rightarrow> a1
                | Some r \<Rightarrow>
                    if recording a1 r
                    then a1\<lparr>mic_recorders := stop_recorder r (mic_recorders a1)\<rparr>
                    else a1);
          a3 = (case streamRef a2 of
                  None \<Rightarrow> a2
                | Some sid \<Rightarrow> a2\<lparr>mic_streams := (mic_streams a2)[sid := False]\<rparr>)
      in a3\<lparr>streamRef := None, recorderRef := None, isListening := False\<rparr>)"

definition clearTranscript :: "AmbientListener \<Rightarrow> AmbientListener" where
  "clearTranscript a = a\<lparr>entries := []\<rparr>"

text \<open>
  Everything that can happen to one listener instance, and the entries it publishes
  through \<open>onTranscript\<close> along a sequence of such events.
\<close>

datatype AmbientEvent =
    StartListening
  | MediaSettled "jsstring option"
  | TimerTick nat
  | RecorderStopped nat Blob jsstring
  | SttSettled "jsstring option fetched" nat nat
  | StopListening
  | ClearTranscript

fun ambient_step ::
    "Language \<Rightarrow> AmbientEvent \<Rightarrow> AmbientListener \<Rightarrow> AmbientListener \<times> TranscriptEntry option"
  where
  "ambient_step lang StartListening a = (startListening_ambient a, None)"
| "ambient_step lang (MediaSettled g) a = (startListening_ambient_resume g a, None)"
| "ambient_step lang (TimerTick t) a = (timer_tick t a, None)"
| "ambient_step lang (RecorderStopped r d m) a = (recorder_onstop_ambient lang r d m a, None)"
| "ambient_step lang (SttSettled r now now') a = transcribeChunk_stt r now now' a"
| "ambient_step lang StopListening a = (stopListening_ambient a, None)"
| "ambient_step lang ClearTranscript a = (clearTranscript a, None)"

fun ambient_run ::
    "Language \<Rightarrow> AmbientEvent list \<Rightarrow> AmbientListener
      \<Rightarrow> AmbientListener \<times> TranscriptEntry list" where
  "ambient_run lang [] a = (a, [])"
| "ambient_run lang (e # es) a =
     (let (a1, p) = ambient_step lang e a; (a2, ps) = ambient_run lang es a1
      in (a2, (case p of None \<Rightarrow> [] | Some x \<Rightarrow> [x]) @ ps))"

section \<open>AIChatPanel: the chat panel with the auto-reply gate\<close>

datatype Role = User | Ai

datatype MsgType = Rag | Web_search | Ambient

datatype QuerySource = FromTyped | FromAmbient

record ChatMessage =
  msg_id :: jsstring
  msg_role :: Role
  msg_text :: jsstring
  msg_sources :: "Source list option"
  msg_timestamp :: nat
  msg_type :: "MsgType option"

text \<open>
  The values a callback of the panel closes over: the props and the React state of the
  render that created it. A callback that is kept across renders keeps these values, so
  they are a parameter of each operation rather than a part of the panel's state.
\<close>

record Closure =
  props :: SlideProps
  language :: Language
  autoReply :: bool
  useWebSearch :: bool
  customTone :: "jsstring option"
  clonedVoiceId :: "jsstring option"
  seen_entries :: "TranscriptEntry list"

text \<open>
  The panel's own state. \<open>autoReply_state\<close> is the React state variable \<open>autoReply\<close>
  (\<open>useState(true)\<close>); a callback reads it through its closure.
\<close>

record AIChatPanel =
  autoReply_state :: bool
  isThinking :: bool
  isThinkingRef :: bool
  messages :: "ChatMessage list"
  input :: jsstring
  chat_audios :: "Audio list"
  chat_effects :: "Effect list"
  listener :: AmbientListener

definition aiChatPanel :: AIChatPanel where
  "aiChatPanel = \<lparr>autoReply_state = True, isThinking = False, isThinkingRef = False,
     messages = [], input = [],
     chat_audios = [], chat_effects = [], listener = useAmbientListener\<rparr>"

text \<open>The auto-reply button: \<open>setAutoReply(!autoReply)\<close>.\<close>

definition toggleAutoReply :: "AIChatPanel \<Rightarrow> AIChatPanel" where
  "toggleAutoReply c = c\<lparr>autoReply_state := \<not> autoReply_state c\<rparr>"

text \<open>The effect that copies \<open>isThinking\<close> into \<open>isThinkingRef\<close> after a render.\<close>

definition sync_ref :: "AIChatPanel \<Rightarrow> AIChatPanel" where
  "sync_ref c = c\<lparr>isThinkingRef := isThinking c\<rparr>"

fun join_space :: "jsstring list \<Rightarrow> jsstring" where
  "join_space [] = []"
| "join_space [x] = x"
| "join_space (x # y # ys) = x @ [32] @ join_space (y # ys)"

definition getDiscussionContext :: "TranscriptEntry list \<Rightarrow> jsstring" where
  "getDiscussionContext es =
     (let recent = drop (length es - 10) es in
      if recent = [] then []
      else js ''Recent discussion transcript:'' @ [10] @ join_space (map entry_text recent))"

definition enrichedContext :: "Closure \<Rightarrow> jsstring" where
  "enrichedContext k =
     (let discussionCtx = getDiscussionContext (seen_entries k) in
      if discussionCtx \<noteq> []
      then slideContext (props k) @ [10, 10] @ js ''--- Ongoing Discussion ---'' @ [10]
             @ discussionCtx
      else slideContext (props k))"

definition query_request :: "Closure \<Rightarrow> jsstring \<Rightarrow> Effect" where
  "query_request k question =
     (if useWebSearch k
      then WebSearchRequest \<lparr>web_query = question, web_slide_context = slideContext (props k),
             web_language = language k, web_custom_tone = customTone k\<rparr>
      else RagRequest \<lparr>rag_session_id = sessionId (props k), rag_slide_id = slideId (props k),
             rag_slide_title = slideTitle (props k), rag_slide_context = enrichedContext k,
             rag_question = question, rag_language = language k,
             rag_custom_tone = customTone k\<rparr>)"

text \<open>
  \<open>queryAI\<close> up to its first \<open>await\<close>; \<open>now\<close> and \<open>now'\<close> are the two readings of
  \<open>Date.now()\<close>.
\<close>

definition queryAI ::
    "Closure \<Rightarrow> nat \<Rightarrow> nat \<Rightarrow> jsstring \<Rightarrow> QuerySource \<Rightarrow> AIChatPanel \<Rightarrow> AIChatPanel" where
  "queryAI k now now' question source c =
     (if js_trim question = [] then c
      else c\<lparr>messages := messages c @
                 [\<lparr>msg_id = js ''u-'' @ dec now, msg_role = User, msg_text = question,
                   msg_sources = None, msg_timestamp = now',
                   msg_type = (if source = FromAmbient then Some Ambient else None)\<rparr>],
             isThinking := True,
             chat_effects := chat_effects c @ [query_request k question]\<rparr>)"

definition web_source :: "Source \<Rightarrow> Source" where
  "web_source s =
     (let title_or_web = (case src_title s of
                            None \<Rightarrow> js ''Web''
                          | Some t \<Rightarrow> if t = [] then js ''Web'' else t)
      in \<lparr>src_source = Some (case src_source s of
                               None \<Rightarrow> title_or_web
                             | Some x \<Rightarrow> if x = [] then title_or_web else x),
          src_title = src_title s, src_similarity = None\<rparr>)"

text \<open>
  \<open>queryAI\<close> after the answer request settles: on success the answer message is added
  and the synthesis request goes out; on any failure the apology is added and
  \<open>isThinking\<close> is cleared.
\<close>

definition queryAI_answered ::
    "Closure \<Rightarrow> (jsstring \<times> Source list option) fetched \<Rightarrow> nat \<Rightarrow> nat \<Rightarrow> AIChatPanel
      \<Rightarrow> AIChatPanel" where
  "queryAI_answered k r now now' c =
     (let failed = c\<lparr>messages := messages c @
                       [\<lparr>msg_id = js ''e-'' @ dec now, msg_role = Ai,
                         msg_text = js ''Sorry, something went wrong. Please try again.'',
                         msg_sources = None, msg_timestamp = now', msg_type = None\<rparr>],
                     isThinking := False\<rparr>
      in case r of
           Threw m \<Rightarrow> failed
         | Res ok body \<Rightarrow>
             if \<not> ok then failed
             else c\<lparr>messages := messages c @
                        [\<lparr>msg_id = js ''a-'' @ dec now, msg_role = Ai, msg_text = fst body,
                          msg_sources = (if useWebSearch k
                                         then map_option (map web_source) (snd body)
                                         else snd body),
                          msg_timestamp = now',
                          msg_type = Some (if useWebSearch k then Web_search else Rag)\<rparr>],
                    chat_effects := chat_effects c @
                        [speak_request (language k) (clonedVoiceId k) (fst body)]\<rparr>)"

text \<open>
  After the synthesis response: a non-empty audio blob becomes a new \<open>Audio\<close> whose
  \<open>play()\<close> is awaited; the panel keeps no reference to the element. Every other
  outcome ends the query.
\<close>

definition queryAI_tts :: "Blob fetched \<Rightarrow> AIChatPanel \<Rightarrow> AIChatPanel" where
  "queryAI_tts r c =
     (case r of
        Threw m \<Rightarrow> c\<lparr>isThinking := False\<rparr>
      | Res ok audioBlob \<Rightarrow>
          if ok \<and> blob_size audioBlob > 0
          then c\<lparr>chat_audios := chat_audios c @ [\<lparr>au_status = Playing, au_owner = ByQueryAI\<rparr>]\<rparr>
          else c\<lparr>isThinking := False\<rparr>)"

text \<open>
  The promise of \<open>audio.play()\<close> for element \<open>a\<close> settles: resolved once playback has
  begun, or rejected. Either way \<open>queryAI\<close> reaches \<open>setIsThinking(false)\<close>.
\<close>

definition queryAI_played :: "nat \<Rightarrow> bool \<Rightarrow> AIChatPanel \<Rightarrow> AIChatPanel" where
  "queryAI_played a started c =
     (if started then c\<lparr>isThinking := False\<rparr>
      else c\<lparr>chat_audios := set_status a Failed (chat_audios c), isThinking := False\<rparr>)"

definition chat_audio_onended :: "nat \<Rightarrow> AIChatPanel \<Rightarrow> AIChatPanel" where
  "chat_audio_onended a c =
     (if a < length (chat_audios c) \<and> au_status (chat_audios c ! a) = Playing
      then c\<lparr>chat_audios := set_status a Ended (chat_audios c)\<rparr>
      else c)"

definition handleAutoReply ::
    "Closure \<Rightarrow> nat \<Rightarrow> nat \<Rightarrow> jsstring \<Rightarrow> AIChatPanel \<Rightarrow> AIChatPanel" where
  "handleAutoReply k now now' text c = queryAI k now now' text FromAmbient c"

definition onTranscriptEntry ::
    "Closure \<Rightarrow> nat \<Rightarrow> nat \<Rightarrow> TranscriptEntry \<Rightarrow> AIChatPanel \<Rightarrow> AIChatPanel" where
  "onTranscriptEntry k now now' entry c =
     (if \<not> autoReply k \<or> isThinkingRef c then c
      else handleAutoReply k now now' (entry_text entry) c)"

definition handleSend :: "Closure \<Rightarrow> nat \<Rightarrow> nat \<Rightarrow> AIChatPanel \<Rightarrow> AIChatPanel" where
  "handleSend k now now' c =
     (if js_trim (input c) = [] \<or> isThinking c then c
      else (queryAI k now now' (input c) FromTyped c)\<lparr>input := []\<rparr>)"

text \<open>
  The listener of the panel receives a transcription response: the listener appends the
  entry (if any) and then calls \<open>onTranscriptEntry\<close> with it. \<open>t1\<close>, \<open>t2\<close> are the clock
  readings of the listener, \<open>t3\<close>, \<open>t4\<close> those of \<open>queryAI\<close>.
\<close>

definition panel_transcribed ::
    "Closure \<Rightarrow> jsstring option fetched \<Rightarrow> nat \<Rightarrow> nat \<Rightarrow> nat \<Rightarrow> nat \<Rightarrow> AIChatPanel
      \<Rightarrow> AIChatPanel" where
  "panel_transcribed k r t1 t2 t3 t4 c =
     (let (l, published) = transcribeChunk_stt r t1 t2 (listener c);
          c1 = c\<lparr>listener := l\<rparr>
      in case published of
           None \<Rightarrow> c1
         | Some entry \<Rightarrow> onTranscriptEntry k t3 t4 entry c1)"

text \<open>
  The orchestrator state that the panel's flags and audio elements stand for: Thinking
  while \<open>isThinking\<close> is set, Speaking while an answer's audio plays, Idle otherwise.
\<close>

definition panel_state :: "AIChatPanel \<Rightarrow> VoiceState" where
  "panel_state c =
     (if isThinking c then Thinking
      else if playing (chat_audios c) \<noteq> [] then Speaking
      else Idle)"

section \<open>Scenarios\<close>

text \<open>Concrete runs of the code, used to exhibit its behaviour on explicit inputs.\<close>

definition slide0 :: SlideProps where
  "slide0 = \<lparr>sessionId = js ''s1'', slideId = js ''slide-1'', slideTitle = js ''Architecture'',
     slideContext = js ''Three services''\<rparr>"

definition webm :: "nat \<Rightarrow> Blob" where
  "webm n = \<lparr>blob_size = n, blob_type = js ''audio/webm''\<rparr>"

text \<open>
  Manual mode: the microphone is granted and the recorder runs; then the capture is
  stopped with 40000 bytes, transcribed, answered, and the answer audio plays.
\<close>

definition manual_recording :: VoiceRAG where
  "manual_recording = startListening_resume (Granted True) (startListening useVoiceRAG)"

definition manual_speaking :: VoiceRAG where
  "manual_speaking =
     processAudio_tts (Res True (webm 9000))
       (processAudio_rag En None (Res True (js ''It has three services'', []))
         (processAudio_stt slide0 En (Res True (js ''What is the architecture?''))
           (recorder_onstop En 0 (webm 40000) (stopListening manual_recording))))"




text \<open>Continuous mode: the listener has been started and its first segment is open.\<close>

definition ambient_listening :: AmbientListener where
  "ambient_listening =
     startListening_ambient_resume (Some (pick_mime False True))
       (startListening_ambient useAmbientListener)"

text \<open>
  The chat panel with auto-reply on: a first entry is heard and forwarded, its answer
  arrives and its audio starts; then a second entry is heard while that audio plays, and
  its answer is synthesized too.
\<close>

definition auto_on :: Closure where
  "auto_on = \<lparr>props = slide0, language = En, autoReply = True, useWebSearch = False,
     customTone = None, clonedVoiceId = None, seen_entries = []\<rparr>"

definition first_heard :: AIChatPanel where
  "first_heard =
     sync_ref (panel_transcribed auto_on (Res True (Some (js ''why''))) 1 2 3 4 aiChatPanel)"

definition first_spoken :: AIChatPanel where
  "first_spoken =
     sync_ref (queryAI_played 0 True
       (queryAI_tts (Res True (webm 9000))
         (queryAI_answered auto_on (Res True (js ''because'', None)) 5 6 first_heard)))"

definition second_heard :: AIChatPanel where
  "second_heard =
     sync_ref (panel_transcribed auto_on (Res True (Some (js ''how''))) 7 8 9 10 first_spoken)"

definition second_spoken :: AIChatPanel where
  "second_spoken =
     queryAI_tts (Res True (webm 9000))
       (queryAI_answered auto_on (Res True (js ''like so'', None)) 11 12 second_heard)"

section \<open>Reading an entry id back\<close>

text \<open>
  The decimal value of a digit string, and the number that follows the last dash of an
  id: the counter the id was made from.
\<close>

definition undec :: "jsstring \<Rightarrow> nat" where
  "undec ds = foldl (\<lambda>n d. 10 * n + (d - 48)) 0 ds"

definition counter_of :: "jsstring \<Rightarrow> nat" where
  "counter_of s = undec (rev (takeWhile (\<lambda>c. c \<noteq> 45) (rev s)))"

text \<open>
  The invariant of the transcript log: the counters in the ids of the log are pairwise
  different and all below the listener's counter.
\<close>

definition log_ok :: "AmbientListener \<Rightarrow> bool" where
  "log_ok a \<longleftrightarrow> distinct (map (\<lambda>x. counter_of (entry_id x)) (entries a))
     \<and> (\<forall>x\<in>set (entries a). counter_of (entry_id x) < idCounter a)"

section \<open>Facts about strings\<close>

lemma dropWhile_all: "(\<forall>x\<in>set (dropWhile P xs). P x) \<longleftrightarrow> (\<forall>x\<in>set xs. P x)"
  by (induction xs) auto

lemma js_trim_empty_iff: "js_trim t = [] \<longleftrightarrow> blank t"
  by (simp add: js_trim_def blank_def list_all_iff dropWhile_all)

lemma last_dropWhile: "dropWhile P xs \<noteq> [] \<Longrightarrow> last (dropWhile P xs) = last xs"
  by (induction xs) auto

text \<open>A trimmed string has nothing left to trim.\<close>

lemma js_trim_idem: "js_trim (js_trim t) = js_trim t"
proof (cases "js_trim t = []")
  case True
  have "js_trim [] = []" by (simp add: js_trim_def)
  with True show ?thesis by simp
next
  case False
  define u where "u = dropWhile isWhiteSpace t"
  define v where "v = dropWhile isWhiteSpace (rev u)"
  have t: "js_trim t = rev v" by (simp add: js_trim_def u_def v_def)
  with False have v: "v \<noteq> []" by simp
  then have u: "u \<noteq> []" by (auto simp: v_def)
  have "last v = last (rev u)" using v unfolding v_def by (rule last_dropWhile)
  also have "\<dots> = hd u" using u by (simp add: last_rev)
  finally have "\<not> isWhiteSpace (last v)"
    using u hd_dropWhile[of isWhiteSpace t] by (simp add: u_def)
  then have "dropWhile isWhiteSpace (rev v) = rev v"
    using v by (cases "rev v") (auto simp: hd_rev dest: arg_cong[where f = hd])
  then show ?thesis unfolding t by (simp add: js_trim_def v_def)
qed

lemma undec_dec: "undec (dec n) = n"
proof (induction n rule: dec.induct)
  case (1 n)
  show ?case
  proof (cases "n < 10")
    case True
    then show ?thesis by (simp add: dec.simps[of n] undec_def)
  next
    case False
    with 1 have "undec (dec (n div 10)) = n div 10" by simp
    with False show ?thesis by (simp add: dec.simps[of n] undec_def)
  qed
qed

lemma dec_digits: "c \<in> set (dec n) \<Longrightarrow> c \<noteq> 45"
proof (induction n rule: dec.induct)
  case (1 n)
  then show ?case
    by (cases "n < 10") (auto simp: dec.simps[of n])
qed

lemma counter_of_entry_id: "counter_of (entry_id_of now n) = n"
proof -
  have "takeWhile (\<lambda>c. c \<noteq> 45) (rev (dec n) @ 45 # xs) = rev (dec n)" for xs
    using dec_digits[of _ n] by (subst takeWhile_tail) (auto simp: takeWhile_eq_all_conv)
  then show ?thesis
    by (simp add: counter_of_def entry_id_of_def js_def undec_dec)
qed

lemma trimmed_words:
  "js_trim (js ''why'') = js ''why''"
  "js_trim (js ''how'') = js ''how''"
  "js ''why'' \<noteq> []"
  "js ''how'' \<noteq> []"
  "js_trim (js ''What is the architecture?'') \<noteq> []"
  "js_trim (js ''And the database?'') \<noteq> []"
  by (simp_all add: js_def js_trim_def isWhiteSpace_def)

lemma blank_spaces: "blank (js ''  '')"
  by (simp add: blank_def js_def isWhiteSpace_def)

section \<open>Facts about the scenarios\<close>

lemmas manual_defs = manual_recording_def startListening_def startListening_resume_def
  useVoiceRAG_def stopListening_def recorder_onstop_def processAudio_def new_Blob_def
  webm_def Let_def

lemma manual_speaking_eval:
  "state manual_speaking = Speaking"
  "answer manual_speaking = js ''It has three services''"
  "audio_live 0 manual_speaking"
  "au_owner (audios manual_speaking ! 0) = ByProcessAudio"
  by (simp_all add: manual_speaking_def manual_defs processAudio_stt_def trimmed_words
        processAudio_rag_def answer_received_def processAudio_tts_def play_new_def
        audio_live_def)

lemmas ambient_defs = ambient_listening_def pick_mime_def startListening_ambient_def
  startListening_ambient_resume_def useAmbientListener_def startRecorder_def
  stopListening_ambient_def recording_def stop_recorder_def recorder_onstop_ambient_def
  transcribeChunk_def segment_blob_def new_Blob_def stream_active_def webm_def Let_def

lemmas chat_defs = sync_ref_def panel_transcribed_def transcribeChunk_stt_def
  onTranscriptEntry_def handleAutoReply_def queryAI_def queryAI_answered_def queryAI_tts_def
  queryAI_played_def aiChatPanel_def useAmbientListener_def auto_on_def webm_def Let_def
  trimmed_words

lemma first_heard_eval:
  "autoReply_state first_heard"
  "isThinking first_heard"
  "isThinkingRef first_heard"
  "chat_audios first_heard = []"
  "chat_effects first_heard = [query_request auto_on (js ''why'')]"
  "length (entries (listener first_heard)) = 1"
  by (simp_all add: first_heard_def chat_defs)

lemma first_spoken_eval:
  "\<not> isThinking first_spoken"
  "\<not> isThinkingRef first_spoken"
  "chat_audios first_spoken = [\<lparr>au_status = Playing, au_owner = ByQueryAI\<rparr>]"
  by (simp_all add: first_spoken_def first_heard_def chat_defs)

lemma second_spoken_eval:
  "chat_audios second_spoken =
     [\<lparr>au_status = Playing, au_owner = ByQueryAI\<rparr>,
      \<lparr>au_status = Playing, au_owner = ByQueryAI\<rparr>]"
  using first_spoken_eval
  by (simp add: second_spoken_def second_heard_def chat_defs)

lemma playing_snoc:
  "playing (as @ [\<lparr>au_status = Playing, au_owner = w\<rparr>]) = playing as @ [length as]"
proof -
  have "filter (\<lambda>i. au_status ((as @ [\<lparr>au_status = Playing, au_owner = w\<rparr>]) ! i) = Playing)
          [0..<length as]
      = filter (\<lambda>i. au_status (as ! i) = Playing) [0..<length as]"
    by (rule filter_cong) (auto simp: nth_append)
  then show ?thesis by (simp add: playing_def)
qed

section \<open>Facts about the operations\<close>



text \<open>Continuous mode drops a segment below 1000 bytes before any request is made.\<close>

lemma transcribeChunk_small: "blob_size b < 1000 \<Longrightarrow> transcribeChunk lang b a = a"
  by (simp add: transcribeChunk_def)

lemma stopListening_ambient_fields:
  assumes "recorderRef a = Some r" and "recording a r"
    and "intervalRef a = Some t" and "t < length (timers a)"
    and "streamRef a = Some sid" and "sid < length (mic_streams a)"
  shows "timers (stopListening_ambient a) = (timers a)[t := False]"
    and "intervalRef (stopListening_ambient a) = None"
    and "mic_streams (stopListening_ambient a) = (mic_streams a)[sid := False]"
    and "streamRef (stopListening_ambient a) = None"
    and "recorderRef (stopListening_ambient a) = None"
    and "isListening (stopListening_ambient a) = False"
    and "stt_effects (stopListening_ambient a) = stt_effects a"
    and "chunksRef (stopListening_ambient a) = chunksRef a"
    and "mic_recorders (stopListening_ambient a) = stop_recorder r (mic_recorders a)"
  using assms
  by (simp_all add: stopListening_ambient_def recording_def Let_def)

text \<open>Only a settled transcription touches the log or the counter.\<close>

lemma ambient_frame:
  "entries (startListening_ambient a) = entries a"
  "idCounter (startListening_ambient a) = idCounter a"
  "entries (startListening_ambient_resume g a) = entries a"
  "idCounter (startListening_ambient_resume g a) = idCounter a"
  "entries (timer_tick t a) = entries a"
  "idCounter (timer_tick t a) = idCounter a"
  "entries (recorder_onstop_ambient lang r d m a) = entries a"
  "idCounter (recorder_onstop_ambient lang r d m a) = idCounter a"
  "entries (stopListening_ambient a) = entries a"
  "idCounter (stopListening_ambient a) = idCounter a"
  "idCounter (clearTranscript a) = idCounter a"
  by (simp_all add: startListening_ambient_def startListening_ambient_resume_def
        startRecorder_def timer_tick_def harvestAndRestart_def recorder_onstop_ambient_def
        transcribeChunk_def stopListening_ambient_def clearTranscript_def Let_def
        split: option.split)

text \<open>
  One event either publishes nothing and keeps the counter, or publishes an entry whose
  id carries the counter's value and increments the counter.
\<close>

lemma ambient_step_counter:
  assumes "ambient_step lang e a = (a1, p)"
  shows "(p = None \<and> idCounter a1 = idCounter a)
     \<or> (\<exists>x. p = Some x \<and> counter_of (entry_id x) = idCounter a
            \<and> idCounter a1 = Suc (idCounter a))"
proof (cases e)
  case (SttSettled r now now')
  with assms show ?thesis
    by (auto simp: transcribeChunk_stt_def Let_def counter_of_entry_id
          split: fetched.splits option.splits if_splits)
qed (use assms in \<open>auto simp: ambient_frame\<close>)

lemma ambient_run_counters:
  "ambient_run lang evs a = (a', ps) \<Longrightarrow>
     map (\<lambda>x. counter_of (entry_id x)) ps = [idCounter a ..< idCounter a']
     \<and> idCounter a \<le> idCounter a'"
proof (induction evs arbitrary: a a' ps)
  case Nil
  then show ?case by simp
next
  case (Cons e evs)
  obtain a1 p where s: "ambient_step lang e a = (a1, p)"
    by (cases "ambient_step lang e a")
  obtain a2 qs where r: "ambient_run lang evs a1 = (a2, qs)"
    by (cases "ambient_run lang evs a1")
  from Cons.prems s r
  have eq: "a' = a2" "ps = (case p of None \<Rightarrow> [] | Some x \<Rightarrow> [x]) @ qs"
    by simp_all
  from Cons.IH[OF r]
  have ih: "map (\<lambda>x. counter_of (entry_id x)) qs = [idCounter a1 ..< idCounter a2]"
    "idCounter a1 \<le> idCounter a2" by simp_all
  from ambient_step_counter[OF s] show ?case
  proof
    assume "p = None \<and> idCounter a1 = idCounter a"
    with ih eq show ?thesis by simp
  next
    assume "\<exists>x. p = Some x \<and> counter_of (entry_id x) = idCounter a
              \<and> idCounter a1 = Suc (idCounter a)"
    with ih eq show ?thesis by (auto simp: upt_conv_Cons)
  qed
qed

lemma ambient_step_log:
  assumes "ambient_step lang e a = (a1, p)" and "log_ok a"
  shows "log_ok a1"
proof (cases e)
  case (SttSettled r now now')
  have grow: "log_ok (a\<lparr>idCounter := Suc (idCounter a),
      entries := entries a @ [\<lparr>entry_id = entry_id_of now (idCounter a), entry_text = tx,
        entry_timestamp = now'\<rparr>]\<rparr>)" for tx
    using assms(2) by (fastforce simp: log_ok_def counter_of_entry_id)
  from assms SttSettled have "a1 = fst (transcribeChunk_stt r now now' a)" by simp
  then show ?thesis
    using assms(2) grow
    by (simp add: transcribeChunk_stt_def Let_def split: fetched.splits option.splits)
next
  case ClearTranscript
  with assms show ?thesis by (auto simp: log_ok_def clearTranscript_def)
qed (use assms in \<open>auto simp: log_ok_def ambient_frame\<close>)

lemma ambient_run_log: "log_ok a \<Longrightarrow> log_ok (fst (ambient_run lang evs a))"
proof (induction evs arbitrary: a)
  case Nil
  then show ?case by simp
next
  case (Cons e evs)
  obtain a1 p where s: "ambient_step lang e a = (a1, p)"
    by (cases "ambient_step lang e a")
  from ambient_step_log[OF s Cons.prems] have "log_ok (fst (ambient_run lang evs a1))"
    by (rule Cons.IH)
  with s show ?case by (simp add: split_beta)
qed

lemma distinct_through:
  "distinct (map (\<lambda>x. counter_of (entry_id x)) xs) \<Longrightarrow> distinct (map entry_id xs)"
  by (induction xs) auto

section \<open>The auto-reply gate\<close>

lemma not_thinking: "panel_state c \<noteq> Thinking \<longleftrightarrow> \<not> isThinking c"
  by (simp add: panel_state_def)

text \<open>
  C1, as the code has it. Take a moment at which the callback that receives the entry has
  the panel's current \<open>autoReply\<close> value and \<open>isThinkingRef\<close> agrees with \<open>isThinking\<close>.
  A transcription response with a non-blank transcript then appends its entry to the
  transcript log, and the entry is forwarded as a question (a query request is issued and
  the panel becomes Thinking) if and only if auto-reply is enabled and the panel is not
  Thinking: it is forwarded when the panel is Idle and also when it is Speaking. An entry
  that arrives while the panel is Thinking changes nothing but the listener's log: it is
  not forwarded, and the panel has no place where it could wait to be forwarded later.
\<close>

theorem auto_reply_gate:
  assumes "\<not> blank t"
    and "autoReply k = autoReply_state c"
    and "isThinkingRef c = isThinking c"
  shows "(let e = \<lparr>entry_id = entry_id_of t1 (idCounter (listener c)), entry_text = js_trim t,
                   entry_timestamp = t2\<rparr>;
              c' = panel_transcribed k (Res True (Some t)) t1 t2 t3 t4 c
          in entries (listener c') = entries (listener c) @ [e]
             \<and> ((chat_effects c' \<noteq> chat_effects c)
                  = (autoReply_state c \<and> panel_state c \<noteq> Thinking))
             \<and> (autoReply_state c \<and> panel_state c \<noteq> Thinking \<longrightarrow>
                   chat_effects c' = chat_effects c @ [query_request k (js_trim t)]
                   \<and> panel_state c' = Thinking
                   \<and> c' = queryAI k t3 t4 (js_trim t) FromAmbient (c\<lparr>listener := listener c'\<rparr>))
             \<and> (\<not> (autoReply_state c \<and> panel_state c \<noteq> Thinking) \<longrightarrow>
                   c' = c\<lparr>listener := listener c'\<rparr>))"
proof -
  from assms(1) have ne: "js_trim t \<noteq> []" by (simp add: js_trim_empty_iff)
  then have ne2: "js_trim (js_trim t) \<noteq> []" by (simp add: js_trim_idem)
  show ?thesis
    using ne ne2 assms(2,3)
    by (simp add: panel_transcribed_def transcribeChunk_stt_def onTranscriptEntry_def
          handleAutoReply_def queryAI_def not_thinking Let_def)
      (simp add: panel_state_def)
qed

text \<open>
  The gate at work while the first question is being answered: the second entry enters
  the log, and nothing is sent.
\<close>

theorem auto_reply_gate_witness:
  "\<not> blank (js ''how'') \<and> autoReply auto_on = autoReply_state first_heard
     \<and> isThinkingRef first_heard = isThinking first_heard
     \<and> panel_state first_heard = Thinking
     \<and> length (entries (listener
         (panel_transcribed auto_on (Res True (Some (js ''how''))) 7 8 9 10 first_heard))) = 2
     \<and> chat_effects (panel_transcribed auto_on (Res True (Some (js ''how''))) 7 8 9 10 first_heard)
         = chat_effects first_heard"
proof -
  have h: "\<not> blank (js ''how'')"
    using js_trim_empty_iff[of "js ''how''"] by (simp add: trimmed_words)
  have a: "autoReply auto_on = autoReply_state first_heard"
    using first_heard_eval by (simp add: auto_on_def)
  have r: "isThinkingRef first_heard = isThinking first_heard"
    using first_heard_eval by simp
  from auto_reply_gate[OF h a r, of 7 8 9 10] show ?thesis
    using h a r first_heard_eval by (simp add: Let_def panel_state_def)
qed

text \<open>
  Against C1 as stated: the first answer's audio is playing (the panel is speaking), a new
  entry arrives, and it is forwarded.
\<close>

theorem entry_while_speaking_counterexample:
  "panel_state first_spoken = Speaking
     \<and> chat_effects (panel_transcribed auto_on (Res True (Some (js ''how''))) 7 8 9 10 first_spoken)
         = chat_effects first_spoken @ [query_request auto_on (js ''how'')]"
  using first_spoken_eval
  by (simp add: panel_state_def playing_def panel_transcribed_def transcribeChunk_stt_def
        onTranscriptEntry_def handleAutoReply_def queryAI_def Let_def trimmed_words auto_on_def)

section \<open>Playback failure\<close>

text \<open>
  C2, as the code has it. Once the retrieval response has been stored, no failure of the
  synthesis request or of the playback changes the answer text, in a voice cycle
  (\<open>processAudio\<close>) and in a text cycle (\<open>askText\<close>) alike. In a voice cycle every such
  failure makes the state Error and puts the failure's message into the error field; in
  a text cycle a rejected synthesis request and a rejected \<open>play()\<close> do the same. In the
  chat panel a failed synthesis request or a rejected \<open>play()\<close> is only logged: the
  messages stay and the thinking flag is cleared.
\<close>

theorem playback_failure_keeps_answer:
  "(let s1 = processAudio_rag lang voice (Res True (ans, srcs)) s;
        s2 = processAudio_tts (Res True b) s1;
        a = length (audios s)
    in answer s1 = ans \<and> state s2 = Speaking \<and> audio_live a s2
       \<and> answer (audio_onerror a s2) = ans \<and> state (audio_onerror a s2) = Error
       \<and> error (audio_onerror a s2) = js ''Audio playback failed''
       \<and> answer (audio_play_rejected a m s2) = ans
       \<and> state (audio_play_rejected a m s2) = Error
       \<and> error (audio_play_rejected a m s2) = m
       \<and> answer (processAudio_tts (Threw m) s1) = ans
       \<and> state (processAudio_tts (Threw m) s1) = Error
       \<and> error (processAudio_tts (Threw m) s1) = m
       \<and> answer (processAudio_tts (Res False b) s1) = ans
       \<and> state (processAudio_tts (Res False b) s1) = Error
       \<and> error (processAudio_tts (Res False b) s1) = js ''TTS failed'')
   \<and> (let s1 = askText_rag lang voice (Res ok (ans, srcs)) s;
            s2 = askText_tts (Res ok' b) s1;
            a = length (audios s)
        in answer s1 = ans \<and> state s2 = Speaking \<and> audio_live a s2
           \<and> answer (audio_onerror a s2) = ans
           \<and> answer (audio_play_rejected a m s2) = ans
           \<and> state (audio_play_rejected a m s2) = Error
           \<and> error (audio_play_rejected a m s2) = m
           \<and> answer (askText_tts (Threw m) s1) = ans
           \<and> state (askText_tts (Threw m) s1) = Error
           \<and> error (askText_tts (Threw m) s1) = m)
   \<and> messages (queryAI_tts (Threw m) c) = messages c \<and> \<not> isThinking (queryAI_tts (Threw m) c)
   \<and> messages (queryAI_tts (Res False b) c) = messages c
   \<and> \<not> isThinking (queryAI_tts (Res False b) c)
   \<and> messages (queryAI_played n False c) = messages c \<and> \<not> isThinking (queryAI_played n False c)"
  by (simp add: processAudio_rag_def askText_rag_def answer_received_def processAudio_tts_def
        askText_tts_def play_new_def audio_live_def audio_onerror_def audio_play_rejected_def
        catch_error_def set_status_def queryAI_tts_def queryAI_played_def Let_def)

text \<open>
  Against C2 as stated: in the manual scenario the answer is shown and its audio plays;
  the audio element reports an error, and the state is not Idle.
\<close>

theorem playback_failure_state_counterexample:
  "state manual_speaking = Speaking \<and> answer manual_speaking = js ''It has three services''
     \<and> state (audio_onerror 0 manual_speaking) \<noteq> Idle"
  using manual_speaking_eval
  by (simp add: audio_onerror_def catch_error_def)

section \<open>Stopping continuous capture\<close>

text \<open>
  C3, as the code has it. While a segment is being recorded, \<open>stopListening\<close> clears the
  harvest timer (a later tick does nothing), stops the tracks of the stream, and sends
  nothing itself. The recorder's stop event then finalizes the in-progress segment and
  hands it to \<open>transcribeChunk\<close> like any harvested one: it is sent for transcription
  unless it is below 1000 bytes. No new recorder is opened.
\<close>

theorem stop_finalizes_segment:
  assumes "recorderRef a = Some r" and "recording a r"
    and "intervalRef a = Some t" and "t < length (timers a)"
    and "streamRef a = Some sid" and "sid < length (mic_streams a)"
  shows "(let a' = stopListening_ambient a;
              a'' = recorder_onstop_ambient lang r d m a'
          in \<not> timers a' ! t \<and> intervalRef a' = None \<and> timer_tick t a' = a'
             \<and> \<not> mic_streams a' ! sid \<and> streamRef a' = None \<and> \<not> isListening a'
             \<and> stt_effects a' = stt_effects a
             \<and> stt_effects a'' = stt_effects a @
                   (if blob_size (segment_blob a r d) < 1000 then []
                    else [SttRequest (segment_blob a r d) lang])
             \<and> length (mic_recorders a'') = length (mic_recorders a)
             \<and> recorderRef a'' = None)"
proof -
  note f = stopListening_ambient_fields[OF assms]
  from assms(2) have r: "r < length (mic_recorders a)" by (simp add: recording_def)
  have seg: "segment_blob (stopListening_ambient a) r d = segment_blob a r d"
    using r by (simp add: segment_blob_def f stop_recorder_def)
  have "\<not> stream_active (transcribeChunk lang b
            ((stopListening_ambient a)\<lparr>chunksRef := [], mic_recorders := rs\<rparr>))" for b rs
    by (simp add: stream_active_def transcribeChunk_def f)
  then have "recorder_onstop_ambient lang r d m (stopListening_ambient a)
      = transcribeChunk lang (segment_blob a r d)
          ((stopListening_ambient a)\<lparr>chunksRef := [],
             mic_recorders := (mic_recorders (stopListening_ambient a))
               [r := (mic_recorders (stopListening_ambient a) ! r)\<lparr>rec_stopping := False\<rparr>]\<rparr>)"
    using r by (simp add: recorder_onstop_ambient_def Let_def seg f stop_recorder_def)
  then show ?thesis
    using assms(4,6)
    by (simp add: Let_def f timer_tick_def transcribeChunk_def stop_recorder_def)
qed

text \<open>The listener is stopped during a segment of 300 bytes: that segment is dropped.\<close>

theorem stop_finalizes_segment_witness:
  "recorderRef ambient_listening = Some 0 \<and> recording ambient_listening 0
     \<and> intervalRef ambient_listening = Some 0 \<and> 0 < length (timers ambient_listening)
     \<and> streamRef ambient_listening = Some 0 \<and> 0 < length (mic_streams ambient_listening)
     \<and> stt_effects (recorder_onstop_ambient En 0 (webm 300) (js ''audio/webm'')
          (stopListening_ambient ambient_listening)) = [GetUserMedia]
     \<and> \<not> mic_streams (stopListening_ambient ambient_listening) ! 0"
proof -
  have h: "recorderRef ambient_listening = Some 0" "recording ambient_listening 0"
    "intervalRef ambient_listening = Some 0" "0 < length (timers ambient_listening)"
    "streamRef ambient_listening = Some 0" "0 < length (mic_streams ambient_listening)"
    by (simp_all add: ambient_listening_def pick_mime_def startListening_ambient_def
          startListening_ambient_resume_def useAmbientListener_def startRecorder_def
          recording_def Let_def)
  have b: "blob_size (segment_blob ambient_listening 0 (webm 300)) = 300"
    "stt_effects ambient_listening = [GetUserMedia]"
    by (simp_all add: ambient_listening_def pick_mime_def startListening_ambient_def
          startListening_ambient_resume_def useAmbientListener_def startRecorder_def
          segment_blob_def new_Blob_def webm_def Let_def)
  from stop_finalizes_segment[OF h, of En "webm 300" "js ''audio/webm''"] show ?thesis
    using h b by (simp add: Let_def)
qed

text \<open>
  Against C3 as stated: the listener is stopped during a segment of 5000 bytes, and that
  segment is sent to the speech-to-text endpoint.
\<close>

theorem stop_sends_segment_counterexample:
  "stt_effects (recorder_onstop_ambient En 0 (webm 5000) (js ''audio/webm'')
      (stopListening_ambient ambient_listening))
   = [GetUserMedia, SttRequest (webm 5000) En]"
  by (simp add: ambient_defs)

section \<open>Short segments\<close>

text \<open>
  C4. A segment below the threshold must not reach the transcription client, in manual
  mode too. The code of manual mode has no threshold: a capture stopped at once, with
  nothing recorded, is sent as a blob of 0 bytes.
\<close>

theorem manual_short_capture_is_transcribed:
  "effects (recorder_onstop En 0 (webm 0) (stopListening manual_recording))
     = [GetUserMedia, SttRequest (webm 0) En]"
  by (simp add: manual_defs)

section \<open>The state gate of the voice panel\<close>




section \<open>Blank transcriptions\<close>

text \<open>
  C6. When the transcription result is empty or whitespace-only, manual mode returns to
  Idle without an error and without a retrieval query (the only effect is the transcript
  callback); the ambient listener creates no entry and publishes nothing, so the chat
  panel is left exactly as it was.
\<close>

theorem blank_not_transcribed:
  assumes "blank t"
  shows "state (processAudio_stt p lang (Res True t) s) = Idle
     \<and> error (processAudio_stt p lang (Res True t) s) = error s
     \<and> answer (processAudio_stt p lang (Res True t) s) = answer s
     \<and> effects (processAudio_stt p lang (Res True t) s) = effects s @ [OnTranscript t]
     \<and> transcribeChunk_stt (Res True (Some t)) now now' a = (a, None)
     \<and> panel_transcribed k (Res True (Some t)) t1 t2 t3 t4 c = c"
  using assms
  by (simp add: processAudio_stt_def transcribeChunk_stt_def panel_transcribed_def
        js_trim_empty_iff Let_def)

theorem blank_not_transcribed_witness:
  "blank (js ''  '')
     \<and> state (processAudio_stt slide0 En (Res True (js ''  ''))
          (recorder_onstop En 0 (webm 40000) (stopListening manual_recording))) = Idle
     \<and> transcribeChunk_stt (Res True (Some (js ''  ''))) 1 2 ambient_listening
          = (ambient_listening, None)"
  using blank_not_transcribed[OF blank_spaces, of slide0 En
      "recorder_onstop En 0 (webm 40000) (stopListening manual_recording)" 1 2
      ambient_listening]
    blank_spaces
  by simp

section \<open>Cancelling playback\<close>

text \<open>
  C7. Cancelling playback (\<open>stopSpeaking\<close>), in whatever state, makes the state Idle and
  leaves the answer text, the sources and the transcript as they were.
\<close>

theorem stopSpeaking_keeps_answer:
  "state (stopSpeaking s) = Idle \<and> answer (stopSpeaking s) = answer s
     \<and> sources (stopSpeaking s) = sources s \<and> transcript (stopSpeaking s) = transcript s"
  by (simp add: stopSpeaking_def split: option.split)

section \<open>Starting a playback\<close>

text \<open>
  C8, as the code has it. A playback request that has received its audio creates a new
  audio element and plays it; every element that was playing before is still playing
  afterwards. The voice hook points \<open>audioRef\<close> at the new element; the chat panel keeps
  no reference at all.
\<close>

theorem playback_keeps_previous:
  assumes "0 < blob_size b"
  shows "chat_audios (queryAI_tts (Res True b) c)
           = chat_audios c @ [\<lparr>au_status = Playing, au_owner = ByQueryAI\<rparr>]
     \<and> playing (chat_audios (queryAI_tts (Res True b) c))
           = playing (chat_audios c) @ [length (chat_audios c)]
     \<and> audios (processAudio_tts (Res True b) s)
           = audios s @ [\<lparr>au_status = Playing, au_owner = ByProcessAudio\<rparr>]
     \<and> audios (askText_tts (Res ok b) s)
           = audios s @ [\<lparr>au_status = Playing, au_owner = ByAskText\<rparr>]
     \<and> playing (audios (processAudio_tts (Res True b) s))
           = playing (audios s) @ [length (audios s)]
     \<and> playing (audios (askText_tts (Res ok b) s)) = playing (audios s) @ [length (audios s)]
     \<and> audioRef (processAudio_tts (Res True b) s) = Some (length (audios s))"
  using assms
  by (simp add: queryAI_tts_def processAudio_tts_def askText_tts_def play_new_def playing_snoc)

theorem playback_keeps_previous_witness:
  "0 < blob_size (webm 9000)
     \<and> playing (audios (askText_tts (Res True (webm 9000)) manual_speaking)) = [0, 1]"
proof -
  have h: "0 < blob_size (webm 9000)" by (simp add: webm_def)
  have p: "playing (audios manual_speaking) = [0]" "length (audios manual_speaking) = 1"
    by (simp_all add: manual_speaking_def manual_defs processAudio_stt_def trimmed_words
          processAudio_rag_def answer_received_def processAudio_tts_def play_new_def
          playing_def)
  from playback_keeps_previous[OF h, of aiChatPanel manual_speaking True]
  have "playing (audios (askText_tts (Res True (webm 9000)) manual_speaking))
      = playing (audios manual_speaking) @ [length (audios manual_speaking)]"
    by blast
  with h p show ?thesis by simp
qed

text \<open>
  Against C8 as stated: the second answer starts to play while the first is playing, and
  the first is not stopped.
\<close>

theorem two_streams_counterexample:
  "playing (chat_audios first_spoken) = [0] \<and> playing (chat_audios second_spoken) = [0, 1]"
  using first_spoken_eval second_spoken_eval
  by (simp add: playing_def)

section \<open>Starting a manual capture\<close>

text \<open>
  C9. \<open>startListening\<close> sets the error, answer and transcript fields to the empty string
  before it asks for the microphone: at that point no recorder exists yet and the state
  has not changed. Answer and transcript are still empty however the request settles, and
  when the capture begins (state Listening) the error field is empty too.
\<close>

theorem startListening_resets:
  "error (startListening s) = [] \<and> answer (startListening s) = []
     \<and> transcript (startListening s) = []
     \<and> recorders (startListening s) = recorders s
     \<and> state (startListening s) = state s
     \<and> answer (startListening_resume r (startListening s)) = []
     \<and> transcript (startListening_resume r (startListening s)) = []
     \<and> state (startListening_resume (Granted True) (startListening s)) = Listening
     \<and> error (startListening_resume (Granted True) (startListening s)) = []"
  by (simp add: startListening_def startListening_resume_def Let_def split: MediaResult.split)

section \<open>Entry ids\<close>

text \<open>
  C10. Along any sequence of events of one listener instance, starting from its initial
  state, the entries published (each appended to the log when published) have pairwise
  distinct ids, and so have the entries in the log at the end: every id ends in the value
  of a counter that grows by one with each entry.
\<close>

theorem entry_ids_distinct:
  "distinct (map entry_id (snd (ambient_run lang evs useAmbientListener)))
     \<and> distinct (map entry_id (entries (fst (ambient_run lang evs useAmbientListener))))"
proof
  obtain a' ps where r: "ambient_run lang evs useAmbientListener = (a', ps)"
    by (cases "ambient_run lang evs useAmbientListener")
  from ambient_run_counters[OF r] have "distinct (map (\<lambda>x. counter_of (entry_id x)) ps)"
    by simp
  then show "distinct (map entry_id (snd (ambient_run lang evs useAmbientListener)))"
    using r by (simp add: distinct_through)
  have "log_ok useAmbientListener" by (simp add: log_ok_def useAmbientListener_def)
  then have "log_ok (fst (ambient_run lang evs useAmbientListener))" by (rule ambient_run_log)
  then show "distinct (map entry_id (entries (fst (ambient_run lang evs useAmbientListener))))"
    by (auto simp: log_ok_def intro: distinct_through)
qed

end
